theory Spec2Isabelle
  imports Main
begin

section \<open>Errors\<close>

text \<open>
  Go error values. \<open>ErrNoEventHandler\<close> and \<open>ErrNoRenderer\<close> are the package's sentinel
  errors, \<open>context_Canceled\<close> is \<^verbatim>\<open>context.Canceled\<close>, \<open>CloseError c\<close> is a
  \<^verbatim>\<open>websocket.CloseError\<close> with status code \<open>c\<close>, and \<open>OtherError s\<close> is any other error,
  named by its message. \<open>Errorf s e\<close> is \<^verbatim>\<open>fmt.Errorf("s: %w", e)\<close> for a non-nil \<open>e\<close>;
  \<open>ErrorfNil s\<close> is the same call with a nil operand, which yields an error that wraps
  nothing.
\<close>

datatype err =
    ErrNoEventHandler
  | ErrNoRenderer
  | context_Canceled
  | CloseError int
  | OtherError string
  | Errorf string err
  | ErrorfNil string

text \<open>\<^verbatim>\<open>errors.Is(err, target)\<close> for a non-nil \<open>err\<close>: equal to the target, or wrapping
  an error that is.\<close>

fun errors_Is :: "err \<Rightarrow> err \<Rightarrow> bool" where
  "errors_Is (Errorf s e) t = (Errorf s e = t \<or> errors_Is e t)"
| "errors_Is e t = (e = t)"

text \<open>\<^verbatim>\<open>errors.Is\<close> on a possibly nil error: a nil error is no target but nil.\<close>

fun errors_Is_opt :: "err option \<Rightarrow> err \<Rightarrow> bool" where
  "errors_Is_opt None t = False"
| "errors_Is_opt (Some e) t = errors_Is e t"

text \<open>
  \<^verbatim>\<open>websocket.CloseStatus\<close> of the websocket library: the status code of the
  \<^verbatim>\<open>CloseError\<close> found by unwrapping, and \<open>-1\<close> when the error is nil or holds none.
\<close>

fun CloseStatus_err :: "err \<Rightarrow> int" where
  "CloseStatus_err (CloseError c) = c"
| "CloseStatus_err (Errorf s e) = CloseStatus_err e"
| "CloseStatus_err e = - 1"

fun CloseStatus :: "err option \<Rightarrow> int" where
  "CloseStatus None = - 1"
| "CloseStatus (Some e) = CloseStatus_err e"

definition StatusNormalClosure :: int where "StatusNormalClosure = 1000"
definition StatusGoingAway :: int where "StatusGoingAway = 1001"
definition StatusPolicyViolation :: int where "StatusPolicyViolation = 1008"
definition StatusInternalError :: int where "StatusInternalError = 1011"

section \<open>Events, render trees and sockets\<close>

text \<open>Go's \<^verbatim>\<open>interface{}\<close> values that the handlers return as socket state.\<close>

datatype anyval = nil | Value string

text \<open>
  Modelled from the spec: the type tag of a wire message (connect, params-changed,
  acknowledgement, error, patch, or a generic event name). The string constants
  \<^verbatim>\<open>EventConnect\<close>, \<^verbatim>\<open>EventParams\<close>, \<^verbatim>\<open>EventAck\<close>, \<^verbatim>\<open>EventError\<close> are declared in a
  file that is not among the sources at hand, so the tag is a datatype and every other
  type string is \<open>EventNamed\<close>.
\<close>

datatype event_type =
    EventConnect | EventParams | EventAck | EventError | EventPatch
  | EventNamed string

text \<open>The wire message \<^verbatim>\<open>Event{T, ID, Data}\<close>.\<close>

record Event =
  evT :: event_type
  evID :: int
  evData :: "string option"

text \<open>\<^verbatim>\<open>ErrorEvent{Source, Err}\<close>; \<open>eeErr\<close> stands for the text \<^verbatim>\<open>err.Error()\<close>.\<close>

record ErrorEvent =
  eeSource :: Event
  eeErr :: err

text \<open>Options of \<^verbatim>\<open>Socket.Send\<close>; the code uses \<^verbatim>\<open>WithID\<close> only.\<close>

datatype EventConfig = WithID int

text \<open>A render tree snapshot (\<^verbatim>\<open>*html.Node\<close>): a text leaf or an element.\<close>

datatype node =
    TextNode string
  | ElementNode string "(string \<times> string) list" "node list"

type_synonym Session = string

type_synonym Params = "(string \<times> string list) list"

text \<open>
  Modelled from the spec: the Socket, whose declaration (\<^verbatim>\<open>BaseSocket\<close>) is not among
  the sources at hand. It owns one current state value, a connected flag and the most
  recently rendered snapshot, absent until the first render. \<open>sockID\<close> is the identity
  of the Go pointer; \<open>closeSlow\<close> is the close frame that \<^verbatim>\<open>assignWS\<close> installs.
\<close>

record sock =
  sockID :: nat
  sockSession :: Session
  connected :: bool
  assigns :: anyval
  currentRender :: "node option"
  closeSlow :: "(int \<times> string) option"

text \<open>
  Modelled from the spec: \<^verbatim>\<open>NewBaseSocket\<close>, which is missing. A socket is created
  with no state assigned and no render performed; \<open>i\<close> is the identity of the new
  socket.
\<close>

definition NewBaseSocket :: "Session \<Rightarrow> nat \<Rightarrow> bool \<Rightarrow> sock" where
  "NewBaseSocket s i c =
     \<lparr>sockID = i, sockSession = s, connected = c, assigns = nil,
      currentRender = None, closeSlow = None\<rparr>"

definition NewHTTPSocket :: "Session \<Rightarrow> nat \<Rightarrow> bool \<Rightarrow> sock" where
  "NewHTTPSocket s i c = NewBaseSocket s i c"

text \<open>\<^verbatim>\<open>assignWS\<close>: the socket closes the websocket with a policy violation when it is
  too slow.\<close>

definition assignWS :: "sock \<Rightarrow> sock" where
  "assignWS s =
     s\<lparr>closeSlow :=
         Some (StatusPolicyViolation, ''socket too slow to keep up with messages'')\<rparr>"

text \<open>Modelled from the spec: \<^verbatim>\<open>Socket.Assign\<close>, which is missing, replaces the state
  value of the socket.\<close>

definition Assign :: "anyval \<Rightarrow> sock \<Rightarrow> sock" where
  "Assign d s = s\<lparr>assigns := d\<rparr>"

text \<open>Modelled from the spec: \<^verbatim>\<open>Socket.UpdateRender\<close>, which is missing, stores the
  render as the socket's snapshot.\<close>

definition UpdateRender :: "node \<Rightarrow> sock \<Rightarrow> sock" where
  "UpdateRender render s = s\<lparr>currentRender := Some render\<rparr>"

section \<open>The base handler (handler.go)\<close>

type_synonym MountHandler = "sock \<Rightarrow> anyval \<times> err option"
type_synonym UnmountHandler = "sock \<Rightarrow> err option"
type_synonym EventHandler = "sock \<Rightarrow> Params \<Rightarrow> anyval \<times> err option"
type_synonym SelfHandler = "sock \<Rightarrow> anyval \<Rightarrow> anyval \<times> err option"

text \<open>\<^verbatim>\<open>RenderContext\<close>: the data handed to the render handler.\<close>

record RenderContext =
  rcAssigns :: anyval

text \<open>A render handler returns an \<^verbatim>\<open>io.Reader\<close> (its content, or nil) and an error.\<close>

type_synonym RenderHandler = "RenderContext \<Rightarrow> string option \<times> err option"

text \<open>What is written to the \<^verbatim>\<open>http.ResponseWriter\<close>.\<close>

datatype body = Rendered string | ErrorText err

datatype http_write = WriteHeader nat | Write body

text \<open>An error handler; the flag says whether \<^verbatim>\<open>Writer(ctx)\<close> is non-nil.\<close>

type_synonym ErrorHandler = "bool \<Rightarrow> err \<Rightarrow> http_write list"

record BaseHandler =
  mountHandler :: MountHandler
  unmountHandler :: UnmountHandler
  renderHandler :: RenderHandler
  errorHandler :: ErrorHandler
  eventHandlers :: "string \<rightharpoonup> EventHandler"
  selfHandlers :: "string \<rightharpoonup> SelfHandler"
  paramsHandlers :: "EventHandler list"

text \<open>
  \<^verbatim>\<open>HandlerConfig func(h Handler) error\<close>: an option mutates the handler it is given and
  may return an error.
\<close>

type_synonym HandlerConfig = "BaseHandler \<Rightarrow> err option \<times> BaseHandler"

text \<open>The handler literal that \<^verbatim>\<open>NewHandler\<close> starts from.\<close>

definition defaultHandler :: BaseHandler where
  "defaultHandler =
     \<lparr>mountHandler = (\<lambda>s. (nil, None)),
      unmountHandler = (\<lambda>s. None),
      renderHandler = (\<lambda>rc. (None, Some ErrNoRenderer)),
      errorHandler = (\<lambda>w e. if w then [WriteHeader 500, Write (ErrorText e)] else []),
      eventHandlers = Map.empty,
      selfHandlers = Map.empty,
      paramsHandlers = []\<rparr>"

text \<open>A \<^verbatim>\<open>slog.Warn\<close> record: message and error.\<close>

datatype slog = Warn string err

text \<open>
  The loop of \<^verbatim>\<open>NewHandler\<close> over the options: an option that fails is logged and the
  loop goes on with the next one.
\<close>

fun applyConfigs ::
  "HandlerConfig list \<Rightarrow> BaseHandler \<Rightarrow> slog list \<Rightarrow> BaseHandler \<times> slog list" where
  "applyConfigs [] h lg = (h, lg)"
| "applyConfigs (conf # confs) h lg =
     (case conf h of
        (Some e, h') \<Rightarrow>
          applyConfigs confs h' (lg @ [Warn ''could not apply config to handler'' e])
      | (None, h') \<Rightarrow> applyConfigs confs h' lg)"

definition NewHandler :: "HandlerConfig list \<Rightarrow> BaseHandler \<times> slog list" where
  "NewHandler configs = applyConfigs configs defaultHandler []"

definition HandleMount :: "MountHandler \<Rightarrow> BaseHandler \<Rightarrow> BaseHandler" where
  "HandleMount f h = h\<lparr>mountHandler := f\<rparr>"

definition HandleUnmount :: "UnmountHandler \<Rightarrow> BaseHandler \<Rightarrow> BaseHandler" where
  "HandleUnmount f h = h\<lparr>unmountHandler := f\<rparr>"

definition HandleRender :: "RenderHandler \<Rightarrow> BaseHandler \<Rightarrow> BaseHandler" where
  "HandleRender f h = h\<lparr>renderHandler := f\<rparr>"

definition HandleError :: "ErrorHandler \<Rightarrow> BaseHandler \<Rightarrow> BaseHandler" where
  "HandleError f h = h\<lparr>errorHandler := f\<rparr>"

definition HandleEvent :: "string \<Rightarrow> EventHandler \<Rightarrow> BaseHandler \<Rightarrow> BaseHandler" where
  "HandleEvent t handler h = h\<lparr>eventHandlers := (eventHandlers h)(t \<mapsto> handler)\<rparr>"

definition HandleSelf :: "string \<Rightarrow> SelfHandler \<Rightarrow> BaseHandler \<Rightarrow> BaseHandler" where
  "HandleSelf t handler h = h\<lparr>selfHandlers := (selfHandlers h)(t \<mapsto> handler)\<rparr>"

definition HandleParams :: "EventHandler \<Rightarrow> BaseHandler \<Rightarrow> BaseHandler" where
  "HandleParams handler h = h\<lparr>paramsHandlers := paramsHandlers h @ [handler]\<rparr>"

definition getMount :: "BaseHandler \<Rightarrow> MountHandler" where
  "getMount h = mountHandler h"

definition getRender :: "BaseHandler \<Rightarrow> RenderHandler" where
  "getRender h = renderHandler h"

definition getError :: "BaseHandler \<Rightarrow> ErrorHandler" where
  "getError h = errorHandler h"

definition getParams :: "BaseHandler \<Rightarrow> EventHandler list" where
  "getParams h = paramsHandlers h"

definition getEvent :: "BaseHandler \<Rightarrow> string \<Rightarrow> err + EventHandler" where
  "getEvent h t =
     (case eventHandlers h t of
        None \<Rightarrow> Inl (Errorf (''no event handler for '' @ t) ErrNoEventHandler)
      | Some handler \<Rightarrow> Inr handler)"

definition getSelf :: "BaseHandler \<Rightarrow> string \<Rightarrow> err + SelfHandler" where
  "getSelf h t =
     (case selfHandlers h t of
        None \<Rightarrow> Inl (Errorf (''no self handler for '' @ t) ErrNoEventHandler)
      | Some handler \<Rightarrow> Inr handler)"

section \<open>The net/http handler\<close>

text \<open>
  The part of an \<^verbatim>\<open>http.Request\<close> that the handler reads: the URL path, the parsed
  query (\<^verbatim>\<open>r.URL.Query()\<close>, a \<^verbatim>\<open>url.Values\<close>) and the Upgrade headers.
\<close>

record request =
  urlPath :: string
  urlQuery :: Params
  headerUpgrade :: "string list"

text \<open>\<^verbatim>\<open>url.Values.Get\<close>: the first value of the key, or the empty string.\<close>

definition Values_Get :: "Params \<Rightarrow> string \<Rightarrow> string" where
  "Values_Get q k =
     (case map_of q k of None \<Rightarrow> '''' | Some [] \<Rightarrow> '''' | Some (v # vs) \<Rightarrow> v)"

text \<open>\<^verbatim>\<open>url.Values.Set\<close>: the key holds the one value afterwards.\<close>

fun Values_Set :: "string \<Rightarrow> string \<Rightarrow> Params \<Rightarrow> Params" where
  "Values_Set k v [] = [(k, [v])]"
| "Values_Set k v ((k', vs) # q) =
     (if k' = k then (k, [v]) # q else (k', vs) # Values_Set k v q)"

definition StatusTemporaryRedirect :: nat where "StatusTemporaryRedirect = 307"

text \<open>The interface \<^verbatim>\<open>HTTPSessionStore\<close>; what an implementation writes to the response
  is recorded by the caller as an action.\<close>

record HTTPSessionStore =
  storeGet :: "request \<Rightarrow> Session \<times> err option"
  storeSave :: "request \<Rightarrow> Session \<Rightarrow> err option"
  storeClear :: "request \<Rightarrow> err option"

text \<open>
  \<^verbatim>\<open>HTTPHandler\<close>: the session store and the embedded base handler. The field
  \<open>sockets\<close> is the live-socket set of the handler, the one state that connections
  share; the code reaches it through \<^verbatim>\<open>AddSocket\<close> and \<^verbatim>\<open>DeleteSocket\<close> only.
\<close>

record HTTPHandler =
  sessionStore :: HTTPSessionStore
  baseHandler :: BaseHandler
  sockets :: "nat set"

text \<open>Modelled from the spec: \<^verbatim>\<open>AddSocket\<close>, which is missing, registers a stateful
  socket in the live-socket set on connect.\<close>

definition AddSocket :: "HTTPHandler \<Rightarrow> sock \<Rightarrow> HTTPHandler" where
  "AddSocket h s = h\<lparr>sockets := insert (sockID s) (sockets h)\<rparr>"

text \<open>Modelled from the spec: \<^verbatim>\<open>DeleteSocket\<close>, which is missing, deregisters the
  socket from the live-socket set on disconnect.\<close>

definition DeleteSocket :: "HTTPHandler \<Rightarrow> sock \<Rightarrow> HTTPHandler" where
  "DeleteSocket h s = h\<lparr>sockets := sockets h - {sockID s}\<rparr>"

text \<open>
  The loop of the net/http \<^verbatim>\<open>NewHandler\<close> over the options: they act on the embedded
  base handler, and the first one that fails ends the construction.
\<close>

fun applyHTTPConfigs :: "HandlerConfig list \<Rightarrow> HTTPHandler \<Rightarrow> err + HTTPHandler" where
  "applyHTTPConfigs [] h = Inr h"
| "applyHTTPConfigs (conf # confs) h =
     (case conf (baseHandler h) of
        (Some e, b) \<Rightarrow> Inl (Errorf ''could not apply config'' e)
      | (None, b) \<Rightarrow> applyHTTPConfigs confs (h\<lparr>baseHandler := b\<rparr>))"

text \<open>
  \<^verbatim>\<open>NewHandler\<close> of the net/http handler (the name \<open>NewHandler\<close> is that of
  handler.go here). \<^verbatim>\<open>NewBaseHandler\<close> is missing and is the parameter \<open>newBase\<close>.
\<close>

definition NewHTTPHandler ::
  "(HandlerConfig list \<Rightarrow> err + BaseHandler) \<Rightarrow> HTTPSessionStore \<Rightarrow> HandlerConfig list
    \<Rightarrow> err + HTTPHandler" where
  "NewHTTPHandler newBase store configs =
     (case newBase configs of
        Inl e \<Rightarrow> Inl (Errorf ''could not init base handler'' e)
      | Inr d \<Rightarrow>
          applyHTTPConfigs configs \<lparr>sessionStore = store, baseHandler = d, sockets = {}\<rparr>)"

text \<open>
  The functions of the repository that the request paths call and whose code is
  missing, and the library calls whose result depends on the data: they are parameters.
  \<open>RenderSocket\<close> returns the render or its error, and the payloads of the patch events
  that it sends through the socket on the way (the code says of it: this will generate
  and send any patches if there have been changes). \<open>Send\<close> returns the error of
  \<^verbatim>\<open>Socket.Send\<close>; the call itself is recorded by the caller. The handlers of the user
  (mount, params, events) are functions of the socket they are given.
\<close>

record env =
  CallParams :: "HTTPHandler \<Rightarrow> sock \<Rightarrow> Event \<Rightarrow> err option \<times> sock"
  CallEvent :: "HTTPHandler \<Rightarrow> event_type \<Rightarrow> sock \<Rightarrow> Event \<Rightarrow> err option \<times> sock"
  RenderSocket :: "HTTPHandler \<Rightarrow> sock \<Rightarrow> (err + node) \<times> anyval list"
  Send :: "sock \<Rightarrow> event_type \<Rightarrow> anyval \<Rightarrow> EventConfig list \<Rightarrow> err option"
  html_Render :: "node \<Rightarrow> string"
  NewParamsFromRequest :: "request \<Rightarrow> Params"
  json_Marshal_ErrorEvent :: "ErrorEvent \<Rightarrow> err + string"
  json_Marshal_Error :: "err \<Rightarrow> err + string"

text \<open>What \<^verbatim>\<open>log.Println\<close> is given.\<close>

datatype log_entry =
    LogError err
  | LogEventError Event err
  | LogBinaryUnhandled
  | LogWsClosed int "err option"

text \<open>
  The effects of the handler on the response, the session store, the log and the
  websocket connection, in the order in which they happen. \<open>CallError e\<close> is the call
  \<^verbatim>\<open>h.Error()(ctx, e)\<close>; \<open>WsWrite t m r\<close> is \<^verbatim>\<open>writeTimeout\<close> of message \<open>m\<close> with a
  timeout of \<open>t\<close> seconds and result \<open>r\<close>.
\<close>

datatype action =
    CallError err
  | LogPrintln log_entry
  | StoreClear
  | StoreSave Session
  | Redirect string Params nat
  | Respond http_write
  | WsWrite nat Event "err option"
  | WsClose int string

fun isRedirect :: "action \<Rightarrow> bool" where
  "isRedirect (Redirect p q c) = True"
| "isRedirect a = False"

fun isCallError :: "action \<Rightarrow> bool" where
  "isCallError (CallError e) = True"
| "isCallError a = False"

text \<open>
  The loop over the param handlers: each one reassigns the socket's state, and the
  first error ends the loop. The result is that error, or nil, and the socket as the
  loop left it.
\<close>

fun runParams :: "EventHandler list \<Rightarrow> Params \<Rightarrow> sock \<Rightarrow> err option \<times> sock" where
  "runParams [] p s = (None, s)"
| "runParams (ph # phs) p s =
     (case ph s p of
        (d, Some e) \<Rightarrow> (Some e, s)
      | (d, None) \<Rightarrow> runParams phs p (Assign d s))"

text \<open>
  \<^verbatim>\<open>serveHTTP\<close>, the stateless request path. \<open>i\<close> is the identity of the socket that
  the request creates. The result is the handler afterwards, the socket when the page
  was rendered, and the actions. \<^verbatim>\<open>h.Mount()\<close>, \<^verbatim>\<open>h.Params()\<close> are the getters of the
  embedded base handler. What \<open>RenderSocket\<close> sends goes to the queue of the request's
  socket, which nothing reads.
\<close>

definition serveHTTP ::
  "env \<Rightarrow> HTTPHandler \<Rightarrow> nat \<Rightarrow> request \<Rightarrow> HTTPHandler \<times> sock option \<times> action list" where
  "serveHTTP env h i r =
     (case storeGet (sessionStore h) r of
        (session, Some e) \<Rightarrow>
          if Values_Get (urlQuery r) ''live-repair'' \<noteq> ''''
          then (h, None, [CallError (Errorf ''session corrupted'' e)])
          else (h, None,
                [LogPrintln (LogError (Errorf ''session corrupted trying to repair'' e)),
                 StoreClear,
                 Redirect (urlPath r) (Values_Set ''live-repair'' ''1'' (urlQuery r))
                   StatusTemporaryRedirect])
      | (session, None) \<Rightarrow>
          (let sock = NewHTTPSocket session i False in
           case getMount (baseHandler h) sock of
             (d, Some e) \<Rightarrow> (h, None, [CallError e])
           | (d, None) \<Rightarrow>
               (case runParams (getParams (baseHandler h)) (NewParamsFromRequest env r)
                       (Assign d sock) of
                  (Some e, sock1) \<Rightarrow> (h, None, [CallError e])
                | (None, sock1) \<Rightarrow>
                    (case RenderSocket env h sock1 of
                       (Inl e, ps) \<Rightarrow> (h, None, [CallError e])
                     | (Inr render, ps) \<Rightarrow>
                         (let sock2 = UpdateRender render sock1;
                              rendered = html_Render env render in
                          case storeSave (sessionStore h) r session of
                            Some e \<Rightarrow> (h, Some sock2, [StoreSave session, CallError e])
                          | None \<Rightarrow>
                              (h, Some sock2,
                               [StoreSave session, Respond (WriteHeader 200),
                                Respond (Write (Rendered rendered))]))))))"

section \<open>The diff of two snapshots\<close>

text \<open>
  Modelled from the spec: a patch operation, which is missing from the sources at hand.
  An operation acts at a position of the tree, a path of child indices from the root;
  the kinds are set-attribute, remove-attribute, replace-text, insert-child-at,
  remove-child-at, move-child and replace-subtree.
\<close>

datatype patch =
    SetAttribute "nat list" string string
  | RemoveAttribute "nat list" string
  | ReplaceText "nat list" string
  | InsertChildAt "nat list" nat node
  | RemoveChildAt "nat list" nat
  | MoveChild "nat list" nat nat
  | ReplaceSubtree "nat list" node

text \<open>Modelled from the spec: the result of \<open>Diff\<close>, a serialized full tree or a patch
  set.\<close>

datatype diff_result = FullTree string | PatchSet "patch list"

text \<open>
  Modelled from the spec: \<open>Diff\<close>, the diff engine, which is missing from the sources at
  hand. If no previous snapshot exists it returns the serialized full tree. Otherwise it
  walks both trees in lock-step and returns the patch operations in document order; the
  walk of two trees is the parameter \<open>walk\<close>, and the serialisation of a tree is the
  parameter \<open>serialize\<close>.
\<close>

definition Diff ::
  "(node \<Rightarrow> node \<Rightarrow> patch list) \<Rightarrow> (node \<Rightarrow> string) \<Rightarrow> node option \<Rightarrow> node
    \<Rightarrow> diff_result" where
  "Diff walk serialize previous current =
     (case previous of
        None \<Rightarrow> FullTree (serialize current)
      | Some p \<Rightarrow> PatchSet (walk p current))"

section \<open>The websocket path\<close>

text \<open>
  What the reading goroutine of \<^verbatim>\<open>_serveWS\<close> does besides changing its socket: log
  lines, values sent on the channels \<^verbatim>\<open>eventErrors\<close> and \<^verbatim>\<open>internalErrors\<close>, events
  handed to \<^verbatim>\<open>sock.Send\<close> (which queues them for the writing loop), and the closing of
  both channels when its loop ends.
\<close>

datatype emission =
    ReaderLog log_entry
  | ToEventErrors ErrorEvent
  | ToInternalErrors err
  | SockSend event_type anyval "EventConfig list"
  | CloseChannels

text \<open>An acknowledgement event handed to \<^verbatim>\<open>sock.Send\<close>.\<close>

fun isAck :: "emission \<Rightarrow> bool" where
  "isAck (SockSend t d cs) = (t = EventAck)"
| "isAck x = False"

fun isToEventErrors :: "emission \<Rightarrow> bool" where
  "isToEventErrors (ToEventErrors ee) = True"
| "isToEventErrors x = False"

text \<open>A patch that \<open>RenderSocket\<close> sends.\<close>

definition sendPatch :: "anyval \<Rightarrow> emission" where
  "sendPatch p = SockSend EventPatch p []"

text \<open>The switch on \<^verbatim>\<open>m.T\<close>: a params event goes to \<^verbatim>\<open>CallParams\<close>, every other type
  to \<^verbatim>\<open>CallEvent\<close>.\<close>

definition dispatch :: "env \<Rightarrow> HTTPHandler \<Rightarrow> sock \<Rightarrow> Event \<Rightarrow> err option \<times> sock" where
  "dispatch env h s m =
     (if evT m = EventParams then CallParams env h s m
      else CallEvent env h (evT m) s m)"

text \<open>
  The channels \<^verbatim>\<open>eventErrors\<close> and \<^verbatim>\<open>internalErrors\<close> are unbuffered: a send on one
  of them ends only when the writing loop receives the value, and until then the
  reading goroutine stays at the send. In the functions of the reading goroutine, \<open>n\<close>
  is the number of values that the writing loop will still receive from these channels
  (\<open>0\<close> when it has returned or is never entered). A send with \<open>n = 0\<close> never ends:
  the result \<open>None\<close> says that the goroutine is blocked for good, and nothing after the
  send happens. The writing loop returns once it has received an internal error, so
  after such a send it receives nothing more; a value that it receives from
  \<^verbatim>\<open>eventErrors\<close> it writes to the client, and \<open>n\<close> counts the value whether or not
  that write succeeds. A result \<open>Some k\<close> says that the goroutine goes on, with \<open>k\<close>
  values still to be received.
\<close>

text \<open>What follows an error of the dispatch: a missing handler is logged, any other
  error is sent on \<^verbatim>\<open>eventErrors\<close>.\<close>

definition dispatchError :: "Event \<Rightarrow> err option \<Rightarrow> nat \<Rightarrow> emission list \<times> nat option" where
  "dispatchError m r n =
     (case r of
        None \<Rightarrow> ([], Some n)
      | Some e \<Rightarrow>
          if errors_Is e ErrNoEventHandler then ([ReaderLog (LogEventError m e)], Some n)
          else (case n of
                  0 \<Rightarrow> ([], None)
                | Suc k \<Rightarrow> ([ToEventErrors \<lparr>eeSource = m, eeErr = e\<rparr>], Some k)))"

text \<open>The acknowledgement of message \<open>m\<close>: the event is handed to \<^verbatim>\<open>sock.Send\<close>, and an
  error of that call is sent on \<^verbatim>\<open>internalErrors\<close>.\<close>

definition sendAck :: "env \<Rightarrow> sock \<Rightarrow> Event \<Rightarrow> nat \<Rightarrow> emission list \<times> nat option" where
  "sendAck env s m n =
     (case Send env s EventAck nil [WithID (evID m)] of
        None \<Rightarrow> ([SockSend EventAck nil [WithID (evID m)]], Some n)
      | Some e \<Rightarrow>
          (case n of
             0 \<Rightarrow> ([SockSend EventAck nil [WithID (evID m)]], None)
           | Suc k \<Rightarrow>
               ([SockSend EventAck nil [WithID (evID m)],
                 ToInternalErrors (Errorf ''socket send error'' e)], Some 0)))"

text \<open>
  The render and the acknowledgement that end the handling of a text message. An error
  of the render is sent on \<^verbatim>\<open>internalErrors\<close> before the acknowledgement; a render
  that succeeds becomes the socket's snapshot.
\<close>

definition renderAndAck ::
  "env \<Rightarrow> HTTPHandler \<Rightarrow> sock \<Rightarrow> Event \<Rightarrow> nat \<Rightarrow> sock \<times> emission list \<times> nat option" where
  "renderAndAck env h s m n =
     (case RenderSocket env h s of
        (Inl e, ps) \<Rightarrow>
          (case n of
             0 \<Rightarrow> (s, map sendPatch ps, None)
           | Suc k \<Rightarrow>
               (case sendAck env s m 0 of
                  (out, n') \<Rightarrow>
                    (s, map sendPatch ps @
                        ToInternalErrors (Errorf ''socket handle error'' e) # out, n')))
      | (Inr render, ps) \<Rightarrow>
          (case sendAck env (UpdateRender render s) m n of
             (out, n') \<Rightarrow> (UpdateRender render s, map sendPatch ps @ out, n')))"

text \<open>The handling of one decoded text message \<open>m\<close>.\<close>

definition handleText ::
  "env \<Rightarrow> HTTPHandler \<Rightarrow> sock \<Rightarrow> Event \<Rightarrow> nat \<Rightarrow> sock \<times> emission list \<times> nat option" where
  "handleText env h s m n =
     (case dispatch env h s m of
        (r, s1) \<Rightarrow>
          (case dispatchError m r n of
             (out0, None) \<Rightarrow> (s1, out0, None)
           | (out0, Some k) \<Rightarrow>
               (case renderAndAck env h s1 m k of
                  (s2, out, n') \<Rightarrow> (s2, out0 @ out, n'))))"

text \<open>
  What \<^verbatim>\<open>c.Read\<close> returns to the reading goroutine: an error, a text message with the
  result of \<^verbatim>\<open>json.Unmarshal\<close> on it, or a binary message.
\<close>

datatype frame =
    ReadError err
  | MessageText "err + Event"
  | MessageBinary

text \<open>Where the reading goroutine is when the frames at hand are used up: waiting for
  the next frame, blocked for good at a send on a channel, or past its loop.\<close>

datatype reader_state = AwaitsFrame | SendBlocked | LoopEnded

text \<open>
  The reading goroutine over the frames that arrive. Only a read error leaves the loop
  (the \<^verbatim>\<open>break\<close> after a failed decode leaves the switch), and both channels are
  closed then.
\<close>

fun reader ::
  "env \<Rightarrow> HTTPHandler \<Rightarrow> frame list \<Rightarrow> sock \<Rightarrow> nat
    \<Rightarrow> sock \<times> emission list \<times> reader_state" where
  "reader env h [] s n = (s, [], AwaitsFrame)"
| "reader env h (ReadError e # fs) s n =
     (case n of
        0 \<Rightarrow> (s, [], SendBlocked)
      | Suc k \<Rightarrow> (s, [ToInternalErrors e, CloseChannels], LoopEnded))"
| "reader env h (MessageText (Inl e) # fs) s n =
     (case n of
        0 \<Rightarrow> (s, [], SendBlocked)
      | Suc k \<Rightarrow>
          (case reader env h fs s 0 of
             (s', out, st) \<Rightarrow> (s', ToInternalErrors e # out, st)))"
| "reader env h (MessageText (Inr m) # fs) s n =
     (case handleText env h s m n of
        (s1, out1, None) \<Rightarrow> (s1, out1, SendBlocked)
      | (s1, out1, Some k) \<Rightarrow>
          (case reader env h fs s1 k of (s', out, st) \<Rightarrow> (s', out1 @ out, st)))"
| "reader env h (MessageBinary # fs) s n =
     (case reader env h fs s n of
        (s', out, st) \<Rightarrow> (s', ReaderLog LogBinaryUnhandled # out, st))"

text \<open>
  One turn of the \<^verbatim>\<open>select\<close> of the writing loop: the case that fired, the value
  received, and the result of the \<^verbatim>\<open>writeTimeout\<close> of that turn when there is one.
  \<open>RecvInternalError None\<close> is the nil received from the closed channel.
\<close>

datatype select_case =
    RecvMsg Event "err option"
  | RecvEventError ErrorEvent "err option"
  | RecvInternalError "err option" "err option"
  | CtxDone

text \<open>
  The writing loop of \<^verbatim>\<open>_serveWS\<close> over the turns of its select. The result is
  \<open>Some r\<close> when the loop returns \<open>r\<close> (\<open>None\<close> for a nil error), and \<open>None\<close> when the
  turns are used up and the loop still waits. In the case of an internal error the
  returned error wraps the inner \<^verbatim>\<open>err\<close> of \<^verbatim>\<open>json.Marshal\<close>, which is nil there.
\<close>

fun writeLoop :: "env \<Rightarrow> select_case list \<Rightarrow> err option option \<times> action list" where
  "writeLoop env [] = (None, [])"
| "writeLoop env (RecvMsg msg w # rest) =
     (case w of
        Some e \<Rightarrow> (Some (Some (Errorf ''writing to socket error'' e)), [WsWrite 5 msg w])
      | None \<Rightarrow>
          (case writeLoop env rest of (r, acts) \<Rightarrow> (r, WsWrite 5 msg w # acts)))"
| "writeLoop env (RecvEventError ee w # rest) =
     (case json_Marshal_ErrorEvent env ee of
        Inl e \<Rightarrow> (Some (Some (Errorf ''writing to socket error'' e)), [])
      | Inr d \<Rightarrow>
          (let msg = \<lparr>evT = EventError, evID = 0, evData = Some d\<rparr> in
           case w of
             Some e \<Rightarrow>
               (Some (Some (Errorf ''writing to socket error'' e)), [WsWrite 5 msg w])
           | None \<Rightarrow>
               (case writeLoop env rest of (r, acts) \<Rightarrow> (r, WsWrite 5 msg w # acts))))"
| "writeLoop env (RecvInternalError None w # rest) = writeLoop env rest"
| "writeLoop env (RecvInternalError (Some err) w # rest) =
     (case json_Marshal_Error env err of
        Inl e \<Rightarrow> (Some (Some (Errorf ''writing to socket error'' e)), [])
      | Inr d \<Rightarrow>
          (let msg = \<lparr>evT = EventError, evID = 0, evData = Some d\<rparr> in
           case w of
             Some e \<Rightarrow>
               (Some (Some (Errorf ''writing to socket error'' e)), [WsWrite 5 msg w])
           | None \<Rightarrow> (Some (Some (ErrorfNil ''internal error'')), [WsWrite 5 msg w])))"
| "writeLoop env (CtxDone # rest) = (Some None, [])"

text \<open>
  The body of \<^verbatim>\<open>_serveWS\<close> after the registration: mount, params and render for the
  connected socket, then the writing loop. The result holds the socket as the body
  left it. The patches that this render sends are queued on the socket; the writing
  loop meets them as messages in its turns.
\<close>

definition serveWSBody ::
  "env \<Rightarrow> HTTPHandler \<Rightarrow> sock \<Rightarrow> request \<Rightarrow> select_case list
    \<Rightarrow> err option option \<times> sock \<times> action list" where
  "serveWSBody env h sock r turns =
     (case getMount (baseHandler h) sock of
        (d, Some e) \<Rightarrow> (Some (Some (Errorf ''socket mount error'' e)), sock, [])
      | (d, None) \<Rightarrow>
          (case runParams (getParams (baseHandler h)) (NewParamsFromRequest env r)
                  (Assign d sock) of
             (Some e, sock1) \<Rightarrow> (Some (Some (Errorf ''socket params error'' e)), sock1, [])
           | (None, sock1) \<Rightarrow>
               (case RenderSocket env h sock1 of
                  (Inl e, ps) \<Rightarrow>
                    (Some (Some (Errorf ''socket render error'' e)), sock1, [])
                | (Inr render, ps) \<Rightarrow>
                    (case writeLoop env turns of
                       (res, acts) \<Rightarrow> (res, UpdateRender render sock1, acts)))))"

text \<open>
  \<^verbatim>\<open>_serveWS\<close>: the socket is created connected and registered; the deferred
  \<^verbatim>\<open>DeleteSocket\<close> runs when the body returns, and not while it still waits.
\<close>

definition underscore_serveWS ::
  "env \<Rightarrow> HTTPHandler \<Rightarrow> nat \<Rightarrow> request \<Rightarrow> Session \<Rightarrow> select_case list
    \<Rightarrow> err option option \<times> HTTPHandler \<times> sock \<times> action list" where
  "underscore_serveWS env h i r session turns =
     (let sock = assignWS (NewHTTPSocket session i True);
          h1 = AddSocket h sock in
      case serveWSBody env h1 sock r turns of
        (None, sock', acts) \<Rightarrow> (None, h1, sock', acts)
      | (Some res, sock', acts) \<Rightarrow> (Some res, DeleteSocket h1 sock, sock', acts))"

text \<open>
  \<^verbatim>\<open>serveWS\<close>. \<open>accept\<close> is the error of \<^verbatim>\<open>websocket.Accept\<close> and \<open>w0\<close> the result of
  the first \<^verbatim>\<open>writeTimeout\<close>, which the code does not look at. The deferred close of
  the connection runs when \<^verbatim>\<open>_serveWS\<close> has returned.
\<close>

definition serveWS ::
  "env \<Rightarrow> HTTPHandler \<Rightarrow> nat \<Rightarrow> request \<Rightarrow> err option \<Rightarrow> err option \<Rightarrow> select_case list
    \<Rightarrow> HTTPHandler \<times> action list" where
  "serveWS env h i r accept w0 turns =
     (case storeGet (sessionStore h) r of
        (session, Some e) \<Rightarrow> (h, [CallError e])
      | (session, None) \<Rightarrow>
          (case accept of
             Some e \<Rightarrow> (h, [CallError e])
           | None \<Rightarrow>
               (let hello = WsWrite 5 \<lparr>evT = EventConnect, evID = 0, evData = None\<rparr> w0 in
                case underscore_serveWS env h i r session turns of
                  (None, h', sock', acts) \<Rightarrow> (h', hello # acts)
                | (Some err, h', sock', acts) \<Rightarrow>
                    if errors_Is_opt err context_Canceled
                    then (h', hello # acts @ [WsClose StatusInternalError ''''])
                    else if CloseStatus err = StatusNormalClosure
                    then (h', hello # acts @ [WsClose StatusInternalError ''''])
                    else if CloseStatus err = StatusGoingAway
                    then (h', hello # acts @ [WsClose StatusInternalError ''''])
                    else (h', hello # acts @
                            [LogPrintln (LogWsClosed (CloseStatus err) err),
                             WsClose StatusInternalError '''']))))"

section \<open>Example values\<close>

text \<open>A session store that works, and one whose \<^verbatim>\<open>Get\<close> always fails.\<close>

definition exStore :: HTTPSessionStore where
  "exStore = \<lparr>storeGet = (\<lambda>r. (''s1'', None)), storeSave = (\<lambda>r s. None),
              storeClear = (\<lambda>r. None)\<rparr>"

definition exBadStore :: HTTPSessionStore where
  "exBadStore =
     \<lparr>storeGet = (\<lambda>r. ('''', Some (OtherError ''securecookie: the value is not valid''))),
      storeSave = (\<lambda>r s. None), storeClear = (\<lambda>r. None)\<rparr>"

text \<open>An event handler for the event \<open>inc\<close>, and a render handler.\<close>

definition exInc :: EventHandler where
  "exInc s p = (Value ''1'', None)"

definition exRender :: RenderHandler where
  "exRender rc = (Some ''<div>hello</div>'', None)"

text \<open>A handler with the event \<open>inc\<close> and a renderer; the same without a renderer; one
  with a failing session store; one whose mount fails.\<close>

definition exHandler :: HTTPHandler where
  "exHandler =
     \<lparr>sessionStore = exStore,
      baseHandler = HandleRender exRender (HandleEvent ''inc'' exInc defaultHandler),
      sockets = {}\<rparr>"

definition exNoRenderHandler :: HTTPHandler where
  "exNoRenderHandler =
     \<lparr>sessionStore = exStore, baseHandler = HandleEvent ''inc'' exInc defaultHandler,
      sockets = {}\<rparr>"

definition exBadHandler :: HTTPHandler where
  "exBadHandler = \<lparr>sessionStore = exBadStore, baseHandler = defaultHandler, sockets = {}\<rparr>"

definition exFailingMount :: MountHandler where
  "exFailingMount s = (nil, Some (OtherError ''no database''))"

definition exMountFailsHandler :: HTTPHandler where
  "exMountFailsHandler =
     \<lparr>sessionStore = exStore, baseHandler = HandleMount exFailingMount defaultHandler,
      sockets = {4}\<rparr>"

definition exRequest :: request where
  "exRequest = \<lparr>urlPath = ''/page'', urlQuery = [(''tab'', [''2''])], headerUpgrade = []\<rparr>"

definition exRepairRequest :: request where
  "exRepairRequest =
     \<lparr>urlPath = ''/page'', urlQuery = [(''tab'', [''2'']), (''live-repair'', [''1''])],
      headerUpgrade = []\<rparr>"

definition exPage :: node where
  "exPage = ElementNode ''div'' [] [TextNode ''hello'']"

text \<open>
  Collaborators for the examples. An event is dispatched to the handler that \<open>getEvent\<close>
  finds, and its state is assigned. A render fails with the error of the handler's
  render function, and else yields \<open>exPage\<close>, with one patch sent when the socket has a
  snapshot already. Every send and every encoding succeeds.
\<close>

definition exCallEvent :: "HTTPHandler \<Rightarrow> event_type \<Rightarrow> sock \<Rightarrow> Event \<Rightarrow> err option \<times> sock" where
  "exCallEvent h t s m =
     (case t of
        EventNamed name \<Rightarrow>
          (case getEvent (baseHandler h) name of
             Inl e \<Rightarrow> (Some e, s)
           | Inr handler \<Rightarrow>
               (case handler s [] of
                  (d, Some e) \<Rightarrow> (Some e, s)
                | (d, None) \<Rightarrow> (None, Assign d s)))
      | _ \<Rightarrow> (Some (Errorf ''no event handler for event'' ErrNoEventHandler), s))"

definition exRenderSocket :: "HTTPHandler \<Rightarrow> sock \<Rightarrow> (err + node) \<times> anyval list" where
  "exRenderSocket h s =
     (case getRender (baseHandler h) \<lparr>rcAssigns = assigns s\<rparr> of
        (out, Some e) \<Rightarrow> (Inl e, [])
      | (out, None) \<Rightarrow>
          (Inr exPage, if currentRender s = None then [] else [Value ''patch'']))"

definition exEnv :: env where
  "exEnv =
     \<lparr>CallParams = (\<lambda>h s m. runParams (getParams (baseHandler h)) [] s),
      CallEvent = exCallEvent,
      RenderSocket = exRenderSocket,
      Send = (\<lambda>s t d cs. None),
      html_Render = (\<lambda>n. ''<div>hello</div>''),
      NewParamsFromRequest = urlQuery,
      json_Marshal_ErrorEvent = (\<lambda>ee. Inr ''{}''),
      json_Marshal_Error = (\<lambda>e. Inr ''error'')\<rparr>"

definition exEvent :: Event where
  "exEvent = \<lparr>evT = EventNamed ''inc'', evID = 7, evData = None\<rparr>"

definition exUnknownEvent :: Event where
  "exUnknownEvent = \<lparr>evT = EventNamed ''nope'', evID = 8, evData = None\<rparr>"

text \<open>The socket of a connection when it is created, and after its first render.\<close>

definition exSock :: sock where
  "exSock = assignWS (NewHTTPSocket ''s1'' 1 True)"

definition exLiveSock :: sock where
  "exLiveSock = UpdateRender exPage exSock"

text \<open>Options: one that fails, one that installs a mount handler, and one that installs
  a param handler and fails when there is one already.\<close>

definition exFailingConfig :: HandlerConfig where
  "exFailingConfig h = (Some (OtherError ''bad option''), h)"

definition exMount :: MountHandler where
  "exMount s = (Value ''mounted'', None)"

definition exMountConfig :: HandlerConfig where
  "exMountConfig h = (None, HandleMount exMount h)"

definition exParams :: EventHandler where
  "exParams s p = (assigns s, None)"

definition exOnceConfig :: HandlerConfig where
  "exOnceConfig h =
     (if paramsHandlers h = [] then (None, HandleParams exParams h)
      else (Some (OtherError ''params handler already set''), h))"

definition exNewBase :: "HandlerConfig list \<Rightarrow> err + BaseHandler" where
  "exNewBase configs = Inr defaultHandler"

definition exFailingNewBase :: "HandlerConfig list \<Rightarrow> err + BaseHandler" where
  "exFailingNewBase configs = Inl (OtherError ''no base handler'')"

section \<open>Auxiliary facts\<close>

lemma Values_Get_Set: "Values_Get (Values_Set k v q) k = v"
  by (induction q) (auto simp: Values_Get_def)

lemma runParams_currentRender:
  "runParams phs p s = (r, s') \<Longrightarrow> currentRender s' = currentRender s"
  by (induction phs arbitrary: s) (auto simp: Assign_def split: prod.splits option.splits)

lemma applyConfigs_fst:
  "fst (applyConfigs confs h lg) = foldl (\<lambda>b conf. snd (conf b)) h confs"
  by (induction confs arbitrary: h lg) (auto split: prod.splits option.splits)

lemma applyConfigs_append:
  "applyConfigs (xs @ ys) h lg =
     (case applyConfigs xs h lg of (h', lg') \<Rightarrow> applyConfigs ys h' lg')"
  by (induction xs arbitrary: h lg) (auto split: prod.splits option.splits)

lemma applyConfigs_log_mono:
  "x \<in> set lg \<Longrightarrow> x \<in> set (snd (applyConfigs confs h lg))"
proof (induction confs arbitrary: h lg)
  case Nil
  then show ?case by simp
next
  case (Cons conf confs)
  obtain r h' where c: "conf h = (r, h')" by (cases "conf h")
  show ?case
  proof (cases r)
    case None
    with c Cons show ?thesis by simp
  next
    case (Some e)
    have "x \<in> set (lg @ [Warn ''could not apply config to handler'' e])"
      using Cons.prems by simp
    then have "x \<in> set (snd (applyConfigs confs h'
        (lg @ [Warn ''could not apply config to handler'' e])))"
      by (rule Cons.IH)
    with c Some show ?thesis by simp
  qed
qed

lemma applyHTTPConfigs_succeeds:
  "(\<forall>k<length confs.
      fst ((confs ! k) (foldl (\<lambda>b conf. snd (conf b)) (baseHandler h) (take k confs))) = None)
   \<Longrightarrow> applyHTTPConfigs confs h =
     Inr (h\<lparr>baseHandler := foldl (\<lambda>b conf. snd (conf b)) (baseHandler h) confs\<rparr>)"
proof (induction confs arbitrary: h)
  case Nil
  then show ?case by simp
next
  case (Cons conf confs)
  obtain r b where c: "conf (baseHandler h) = (r, b)" by (cases "conf (baseHandler h)")
  from Cons.prems have "fst (conf (baseHandler h)) = None"
    by (simp add: All_less_Suc2)
  with c have r: "r = None" by simp
  from Cons.prems c have "\<forall>k<length confs.
      fst ((confs ! k) (foldl (\<lambda>b conf. snd (conf b))
        (baseHandler (h\<lparr>baseHandler := b\<rparr>)) (take k confs))) = None"
    by (simp add: All_less_Suc2)
  then have "applyHTTPConfigs confs (h\<lparr>baseHandler := b\<rparr>) =
      Inr (h\<lparr>baseHandler := b\<rparr>\<lparr>baseHandler :=
        foldl (\<lambda>b conf. snd (conf b)) (baseHandler (h\<lparr>baseHandler := b\<rparr>)) confs\<rparr>)"
    by (rule Cons.IH)
  with c r show ?case by simp
qed

lemma applyHTTPConfigs_aborts:
  "j < length confs \<Longrightarrow>
   (\<forall>k<j.
      fst ((confs ! k) (foldl (\<lambda>b conf. snd (conf b)) (baseHandler h) (take k confs))) = None)
   \<Longrightarrow> fst ((confs ! j) (foldl (\<lambda>b conf. snd (conf b)) (baseHandler h) (take j confs)))
         = Some e
   \<Longrightarrow> applyHTTPConfigs confs h = Inl (Errorf ''could not apply config'' e)"
proof (induction confs arbitrary: h j)
  case Nil
  then show ?case by simp
next
  case (Cons conf confs)
  obtain r b where c: "conf (baseHandler h) = (r, b)" by (cases "conf (baseHandler h)")
  show ?case
  proof (cases j)
    case 0
    with Cons.prems c have "r = Some e" by simp
    with c show ?thesis by simp
  next
    case (Suc j')
    from Cons.prems Suc have "fst (conf (baseHandler h)) = None"
      by (simp add: All_less_Suc2)
    with c have r: "r = None" by simp
    from Cons.prems Suc have j': "j' < length confs" by simp
    from Cons.prems Suc c have ok: "\<forall>k<j'.
        fst ((confs ! k) (foldl (\<lambda>b conf. snd (conf b))
          (baseHandler (h\<lparr>baseHandler := b\<rparr>)) (take k confs))) = None"
      by (simp add: All_less_Suc2)
    from Cons.prems Suc c have bad:
      "fst ((confs ! j') (foldl (\<lambda>b conf. snd (conf b))
          (baseHandler (h\<lparr>baseHandler := b\<rparr>)) (take j' confs))) = Some e"
      by simp
    have "applyHTTPConfigs confs (h\<lparr>baseHandler := b\<rparr>) =
        Inl (Errorf ''could not apply config'' e)"
      using j' ok bad by (rule Cons.IH)
    with c r show ?thesis by simp
  qed
qed

lemma isAck_sendPatch: "filter isAck (map sendPatch ps) = []"
  by (induction ps) (simp_all add: sendPatch_def)

lemma sendAck_acks:
  "filter isAck (fst (sendAck env s m n)) = [SockSend EventAck nil [WithID (evID m)]]"
  by (simp add: sendAck_def split: option.splits nat.splits)

lemma handleText_dispatched:
  "dispatch env h s m = (None, s1) \<Longrightarrow> handleText env h s m n = renderAndAck env h s1 m n"
  by (simp add: handleText_def dispatchError_def split: prod.splits)

section \<open>Properties\<close>

text \<open>
  C1, as stated, fails. The handler has the event \<open>inc\<close> and no renderer. The body of
  \<open>_serveWS\<close> returns with the render error before its writing loop, so the loop
  receives nothing. A message \<open>inc\<close> that the reading goroutine has read is dispatched
  with success; the render that follows fails, the goroutine stays at the send of that
  error, the socket is left with no stored snapshot, and no acknowledgement is queued.
\<close>

theorem handleText_snapshot_counterexample:
  "fst (underscore_serveWS exEnv exNoRenderHandler 1 exRequest ''s1'' []) =
     Some (Some (Errorf ''socket render error'' ErrNoRenderer)) \<and>
   dispatch exEnv exNoRenderHandler exSock exEvent = (None, Assign (Value ''1'') exSock) \<and>
   handleText exEnv exNoRenderHandler exSock exEvent 0 =
     (Assign (Value ''1'') exSock, [], None) \<and>
   currentRender (Assign (Value ''1'') exSock) = None"
  by (simp add: underscore_serveWS_def serveWSBody_def handleText_def dispatch_def
      dispatchError_def renderAndAck_def exNoRenderHandler_def exStore_def exEnv_def
      exCallEvent_def exRenderSocket_def exInc_def exEvent_def exSock_def exRequest_def
      HandleEvent_def defaultHandler_def getMount_def getParams_def getRender_def
      getEvent_def AddSocket_def DeleteSocket_def assignWS_def NewHTTPSocket_def
      NewBaseSocket_def Assign_def Let_def)

text \<open>
  C1, amended. On the websocket path, for every inbound client event that is dispatched
  with success, the connection renders the socket again. When that render succeeds, it
  updates the socket's stored snapshot and queues exactly one acknowledgement event,
  whose id is the id of the inbound message. When that render fails, the snapshot is
  left as it was and the error is sent on the internal error channel: if the writing
  loop receives it, exactly one such acknowledgement is queued after it; if the writing
  loop receives nothing any more, the reading goroutine stays at that send and no
  acknowledgement is queued.
\<close>

theorem handleText_ack:
  assumes "dispatch env h s m = (None, s1)"
  shows "(RenderSocket env h s1 = (Inr render, ps) \<longrightarrow>
            fst (handleText env h s m n) = UpdateRender render s1 \<and>
            currentRender (fst (handleText env h s m n)) = Some render \<and>
            filter isAck (fst (snd (handleText env h s m n))) =
              [SockSend EventAck nil [WithID (evID m)]]) \<and>
         (RenderSocket env h s1 = (Inl e, ps) \<longrightarrow>
            fst (handleText env h s m n) = s1 \<and>
            (n = 0 \<longrightarrow>
               snd (handleText env h s m n) = (map sendPatch ps, None) \<and>
               filter isAck (fst (snd (handleText env h s m n))) = []) \<and>
            (0 < n \<longrightarrow>
               ToInternalErrors (Errorf ''socket handle error'' e)
                 \<in> set (fst (snd (handleText env h s m n))) \<and>
               filter isAck (fst (snd (handleText env h s m n))) =
                 [SockSend EventAck nil [WithID (evID m)]]))"
proof (intro conjI impI)
  assume r: "RenderSocket env h s1 = (Inr render, ps)"
  then show "fst (handleText env h s m n) = UpdateRender render s1"
    by (simp add: handleText_dispatched [OF assms] renderAndAck_def split: prod.splits)
  then show "currentRender (fst (handleText env h s m n)) = Some render"
    by (simp add: UpdateRender_def)
  have "fst (snd (handleText env h s m n)) =
      map sendPatch ps @ fst (sendAck env (UpdateRender render s1) m n)"
    using r by (simp add: handleText_dispatched [OF assms] renderAndAck_def split: prod.splits)
  then show "filter isAck (fst (snd (handleText env h s m n))) =
      [SockSend EventAck nil [WithID (evID m)]]"
    by (simp add: isAck_sendPatch sendAck_acks)
next
  assume r: "RenderSocket env h s1 = (Inl e, ps)"
  then show "fst (handleText env h s m n) = s1"
    by (simp add: handleText_dispatched [OF assms] renderAndAck_def
        split: prod.splits nat.splits)
  {
    assume "n = 0"
    with r show "snd (handleText env h s m n) = (map sendPatch ps, None)"
      by (simp add: handleText_dispatched [OF assms] renderAndAck_def)
    then show "filter isAck (fst (snd (handleText env h s m n))) = []"
      by (simp add: isAck_sendPatch)
  }
  {
    assume "0 < n"
    then obtain k where k: "n = Suc k" by (cases n) auto
    have out: "fst (snd (handleText env h s m n)) =
        map sendPatch ps @ ToInternalErrors (Errorf ''socket handle error'' e)
          # fst (sendAck env s1 m 0)"
      using r k by (simp add: handleText_dispatched [OF assms] renderAndAck_def
          split: prod.splits)
    then show "ToInternalErrors (Errorf ''socket handle error'' e)
        \<in> set (fst (snd (handleText env h s m n)))"
      by simp
    from out show "filter isAck (fst (snd (handleText env h s m n))) =
        [SockSend EventAck nil [WithID (evID m)]]"
      by (simp add: isAck_sendPatch sendAck_acks)
  }
qed

theorem handleText_ack_witness:
  "dispatch exEnv exHandler exLiveSock exEvent = (None, Assign (Value ''1'') exLiveSock) \<and>
   RenderSocket exEnv exHandler (Assign (Value ''1'') exLiveSock) =
     (Inr exPage, [Value ''patch'']) \<and>
   currentRender (fst (handleText exEnv exHandler exLiveSock exEvent 1)) = Some exPage \<and>
   filter isAck (fst (snd (handleText exEnv exHandler exLiveSock exEvent 1))) =
     [SockSend EventAck nil [WithID 7]] \<and>
   handleText exEnv exNoRenderHandler exLiveSock exEvent 1 =
     (Assign (Value ''1'') exLiveSock,
      [ToInternalErrors (Errorf ''socket handle error'' ErrNoRenderer),
       SockSend EventAck nil [WithID 7]], Some 0)"
proof -
  have d: "dispatch exEnv exHandler exLiveSock exEvent = (None, Assign (Value ''1'') exLiveSock)"
    by (simp add: dispatch_def exEnv_def exCallEvent_def exEvent_def exHandler_def
        exInc_def getEvent_def HandleEvent_def HandleRender_def)
  have r: "RenderSocket exEnv exHandler (Assign (Value ''1'') exLiveSock) =
      (Inr exPage, [Value ''patch''])"
    by (simp add: exEnv_def exRenderSocket_def exHandler_def exRender_def exLiveSock_def
        getRender_def HandleRender_def Assign_def UpdateRender_def)
  have d': "dispatch exEnv exNoRenderHandler exLiveSock exEvent =
      (None, Assign (Value ''1'') exLiveSock)"
    by (simp add: dispatch_def exEnv_def exCallEvent_def exEvent_def exNoRenderHandler_def
        exInc_def getEvent_def HandleEvent_def)
  have r': "RenderSocket exEnv exNoRenderHandler (Assign (Value ''1'') exLiveSock) =
      (Inl ErrNoRenderer, [])"
    by (simp add: exEnv_def exRenderSocket_def exNoRenderHandler_def getRender_def
        HandleEvent_def defaultHandler_def)
  have s: "Send exEnv = (\<lambda>s t d cs. None)"
    by (simp add: exEnv_def)
  have i: "evID exEvent = 7"
    by (simp add: exEvent_def)
  have "handleText exEnv exNoRenderHandler exLiveSock exEvent 1 =
     (Assign (Value ''1'') exLiveSock,
      [ToInternalErrors (Errorf ''socket handle error'' ErrNoRenderer),
       SockSend EventAck nil [WithID 7]], Some 0)"
    using handleText_ack [OF d', where render = exPage and ps = "[]" and e = ErrNoRenderer
        and n = 1]
    by (simp add: handleText_dispatched [OF d'] renderAndAck_def sendAck_def s r' i)
  with d r show ?thesis
    using handleText_ack [OF d, where render = exPage and ps = "[Value ''patch'']"
        and e = ErrNoRenderer and n = 1]
    by (simp add: i UpdateRender_def)
qed

text \<open>
  C2. On the stateless path, when the session store's \<open>Get\<close> returns an error: if the
  request's \<open>live-repair\<close> query value is empty, the handler logs, clears the session
  and issues one redirect, and nothing else, to the same path with the query in which
  \<open>live-repair\<close> is set to \<open>1\<close> (so the marker is present on the next request), and the
  error handler is not called; if the value is not empty, the error handler is called
  once with the error wrapped as a session corruption, and no redirect is issued.
\<close>

theorem serveHTTP_session_repair:
  assumes "storeGet (sessionStore h) r = (s, Some e)"
  shows "(Values_Get (urlQuery r) ''live-repair'' = '''' \<longrightarrow>
            snd (snd (serveHTTP env h i r)) =
              [LogPrintln (LogError (Errorf ''session corrupted trying to repair'' e)),
               StoreClear,
               Redirect (urlPath r) (Values_Set ''live-repair'' ''1'' (urlQuery r))
                 StatusTemporaryRedirect] \<and>
            length (filter isRedirect (snd (snd (serveHTTP env h i r)))) = 1 \<and>
            filter isCallError (snd (snd (serveHTTP env h i r))) = [] \<and>
            Values_Get (Values_Set ''live-repair'' ''1'' (urlQuery r)) ''live-repair'' = ''1'') \<and>
         (Values_Get (urlQuery r) ''live-repair'' \<noteq> '''' \<longrightarrow>
            snd (snd (serveHTTP env h i r)) = [CallError (Errorf ''session corrupted'' e)] \<and>
            filter isRedirect (snd (snd (serveHTTP env h i r))) = [])"
  using assms by (simp add: serveHTTP_def Values_Get_Set)

theorem serveHTTP_session_repair_witness:
  "storeGet (sessionStore exBadHandler) exRequest =
     ('''', Some (OtherError ''securecookie: the value is not valid'')) \<and>
   snd (snd (serveHTTP exEnv exBadHandler 0 exRequest)) =
     [LogPrintln (LogError (Errorf ''session corrupted trying to repair''
        (OtherError ''securecookie: the value is not valid''))),
      StoreClear,
      Redirect ''/page'' [(''tab'', [''2'']), (''live-repair'', [''1''])] 307] \<and>
   snd (snd (serveHTTP exEnv exBadHandler 0 exRepairRequest)) =
     [CallError (Errorf ''session corrupted''
        (OtherError ''securecookie: the value is not valid''))]"
  using serveHTTP_session_repair [where h = exBadHandler and r = exRequest and s = "''''"
      and e = "OtherError ''securecookie: the value is not valid''" and env = exEnv
      and i = 0]
    serveHTTP_session_repair [where h = exBadHandler and r = exRepairRequest and s = "''''"
      and e = "OtherError ''securecookie: the value is not valid''" and env = exEnv
      and i = 0]
  by (simp add: exBadHandler_def exBadStore_def exRequest_def exRepairRequest_def
      Values_Get_def StatusTemporaryRedirect_def)

text \<open>
  C3. \<open>_serveWS\<close> registers its socket in the handler's live-socket set: while the
  connection logic still waits in its loop, the socket is in the set. Whenever the
  connection logic returns, whatever the result (mount, params or render error, write
  error, internal error, or cancellation), the socket is no longer in the set, and the
  other members of the set are as they were.
\<close>

theorem serveWS_deregisters:
  assumes "underscore_serveWS env h i r session turns = (res, h', s', acts)"
  shows "(res = None \<longrightarrow> i \<in> sockets h' \<and> sockets h' = insert i (sockets h)) \<and>
         (res \<noteq> None \<longrightarrow> i \<notin> sockets h' \<and> sockets h' = sockets h - {i})"
  using assms
  by (auto simp: underscore_serveWS_def Let_def AddSocket_def DeleteSocket_def
      assignWS_def NewHTTPSocket_def NewBaseSocket_def split: prod.splits option.splits)

theorem serveWS_deregisters_witness:
  "underscore_serveWS exEnv exHandler 1 exRequest ''s1'' [] =
     (None, exHandler\<lparr>sockets := {1}\<rparr>, exLiveSock, []) \<and>
   1 \<in> sockets (exHandler\<lparr>sockets := {1}\<rparr>) \<and>
   underscore_serveWS exEnv exHandler 1 exRequest ''s1'' [CtxDone] =
     (Some None, exHandler, exLiveSock, []) \<and>
   1 \<notin> sockets exHandler \<and>
   underscore_serveWS exEnv exMountFailsHandler 1 exRequest ''s1'' [] =
     (Some (Some (Errorf ''socket mount error'' (OtherError ''no database''))),
      exMountFailsHandler, exSock, []) \<and>
   sockets exMountFailsHandler = {4}"
proof -
  have a: "underscore_serveWS exEnv exHandler 1 exRequest ''s1'' [] =
      (None, exHandler\<lparr>sockets := {1}\<rparr>, exLiveSock, [])"
    by (simp add: underscore_serveWS_def serveWSBody_def exHandler_def exStore_def
        exEnv_def exRenderSocket_def exRender_def exSock_def exLiveSock_def exRequest_def
        HandleEvent_def HandleRender_def defaultHandler_def getMount_def getParams_def
        getRender_def AddSocket_def DeleteSocket_def assignWS_def NewHTTPSocket_def
        NewBaseSocket_def Assign_def UpdateRender_def Let_def)
  have b: "underscore_serveWS exEnv exHandler 1 exRequest ''s1'' [CtxDone] =
      (Some None, exHandler, exLiveSock, [])"
    by (simp add: underscore_serveWS_def serveWSBody_def exHandler_def exStore_def
        exEnv_def exRenderSocket_def exRender_def exSock_def exLiveSock_def exRequest_def
        HandleEvent_def HandleRender_def defaultHandler_def getMount_def getParams_def
        getRender_def AddSocket_def DeleteSocket_def assignWS_def NewHTTPSocket_def
        NewBaseSocket_def Assign_def UpdateRender_def Let_def)
  have c: "underscore_serveWS exEnv exMountFailsHandler 1 exRequest ''s1'' [] =
      (Some (Some (Errorf ''socket mount error'' (OtherError ''no database''))),
       exMountFailsHandler, exSock, [])"
    by (simp add: underscore_serveWS_def serveWSBody_def exMountFailsHandler_def
        exStore_def exSock_def exFailingMount_def HandleMount_def defaultHandler_def
        getMount_def AddSocket_def DeleteSocket_def assignWS_def NewHTTPSocket_def
        NewBaseSocket_def Let_def)
  from a b c show ?thesis
    using serveWS_deregisters [OF a] serveWS_deregisters [OF b] serveWS_deregisters [OF c]
    by (simp add: exMountFailsHandler_def)
qed

text \<open>
  C4, as stated, fails for \<open>NewHandler\<close> of handler.go: the first option returns an
  error, and the construction goes on, applies the second option and returns a handler;
  the error is only logged.
\<close>

theorem NewHandler_abort_counterexample:
  "NewHandler [exFailingConfig, exMountConfig] =
     (HandleMount exMount defaultHandler,
      [Warn ''could not apply config to handler'' (OtherError ''bad option'')])"
  by (simp add: NewHandler_def exFailingConfig_def exMountConfig_def)

text \<open>
  C4, amended. \<open>NewHandler\<close> of handler.go applies every option in the order given,
  each to the handler that the one before it left, and always returns a handler; the
  error of an option that fails is logged as a warning. \<open>NewHandler\<close> of the net/http
  handler returns an error and no handler when the construction of its base handler
  fails. When that succeeds, it applies the options in the order given, each to the
  handler that the ones before it left: if every option succeeds there, it returns the
  handler with all of them applied; if option \<open>j\<close> is the first that returns an error,
  it returns that error, wrapped, and no handler.
\<close>

theorem construction_options:
  "fst (NewHandler configs) = foldl (\<lambda>b conf. snd (conf b)) defaultHandler configs \<and>
   (conf (fst (NewHandler pre)) = (Some e, b) \<longrightarrow>
      Warn ''could not apply config to handler'' e
        \<in> set (snd (NewHandler (pre @ conf # post)))) \<and>
   (newBase configs = Inl e0 \<longrightarrow>
      NewHTTPHandler newBase store configs =
        Inl (Errorf ''could not init base handler'' e0)) \<and>
   (newBase configs = Inr d \<longrightarrow>
    (\<forall>k<length configs.
       fst ((configs ! k) (foldl (\<lambda>b conf. snd (conf b)) d (take k configs))) = None) \<longrightarrow>
      NewHTTPHandler newBase store configs =
        Inr \<lparr>sessionStore = store,
             baseHandler = foldl (\<lambda>b conf. snd (conf b)) d configs, sockets = {}\<rparr>) \<and>
   (newBase configs = Inr d \<longrightarrow> j < length configs \<longrightarrow>
    (\<forall>k<j.
       fst ((configs ! k) (foldl (\<lambda>b conf. snd (conf b)) d (take k configs))) = None) \<longrightarrow>
    fst ((configs ! j) (foldl (\<lambda>b conf. snd (conf b)) d (take j configs))) = Some e \<longrightarrow>
      NewHTTPHandler newBase store configs =
        Inl (Errorf ''could not apply config'' e))"
proof (intro conjI impI)
  show "fst (NewHandler configs) = foldl (\<lambda>b conf. snd (conf b)) defaultHandler configs"
    by (simp add: NewHandler_def applyConfigs_fst)
next
  assume c: "conf (fst (NewHandler pre)) = (Some e, b)"
  obtain h' lg' where p: "applyConfigs pre defaultHandler [] = (h', lg')"
    by (cases "applyConfigs pre defaultHandler []")
  from c p have "conf h' = (Some e, b)" by (simp add: NewHandler_def)
  then have "snd (NewHandler (pre @ conf # post)) =
      snd (applyConfigs post b (lg' @ [Warn ''could not apply config to handler'' e]))"
    using p by (simp add: NewHandler_def applyConfigs_append)
  moreover have "Warn ''could not apply config to handler'' e \<in>
      set (snd (applyConfigs post b (lg' @ [Warn ''could not apply config to handler'' e])))"
    by (rule applyConfigs_log_mono) simp
  ultimately show
    "Warn ''could not apply config to handler'' e \<in> set (snd (NewHandler (pre @ conf # post)))"
    by simp
next
  assume "newBase configs = Inl e0"
  then show "NewHTTPHandler newBase store configs =
      Inl (Errorf ''could not init base handler'' e0)"
    by (simp add: NewHTTPHandler_def)
next
  assume "newBase configs = Inr d"
    and "\<forall>k<length configs.
       fst ((configs ! k) (foldl (\<lambda>b conf. snd (conf b)) d (take k configs))) = None"
  then show "NewHTTPHandler newBase store configs =
        Inr \<lparr>sessionStore = store,
             baseHandler = foldl (\<lambda>b conf. snd (conf b)) d configs, sockets = {}\<rparr>"
    by (simp add: NewHTTPHandler_def applyHTTPConfigs_succeeds)
next
  assume "newBase configs = Inr d" and "j < length configs"
    and "\<forall>k<j.
       fst ((configs ! k) (foldl (\<lambda>b conf. snd (conf b)) d (take k configs))) = None"
    and "fst ((configs ! j) (foldl (\<lambda>b conf. snd (conf b)) d (take j configs))) = Some e"
  then show "NewHTTPHandler newBase store configs =
        Inl (Errorf ''could not apply config'' e)"
    by (simp add: NewHTTPHandler_def applyHTTPConfigs_aborts [where j = j])
qed

theorem construction_options_witness:
  "fst (NewHandler [exMountConfig, exOnceConfig, exOnceConfig, exMountConfig]) =
     HandleParams exParams (HandleMount exMount defaultHandler) \<and>
   Warn ''could not apply config to handler'' (OtherError ''params handler already set'')
     \<in> set (snd (NewHandler [exMountConfig, exOnceConfig, exOnceConfig, exMountConfig])) \<and>
   NewHTTPHandler exFailingNewBase exStore [exMountConfig, exOnceConfig] =
     Inl (Errorf ''could not init base handler'' (OtherError ''no base handler'')) \<and>
   NewHTTPHandler exNewBase exStore [exMountConfig, exOnceConfig] =
     Inr \<lparr>sessionStore = exStore,
          baseHandler = HandleParams exParams (HandleMount exMount defaultHandler),
          sockets = {}\<rparr> \<and>
   NewHTTPHandler exNewBase exStore [exMountConfig, exOnceConfig, exOnceConfig, exMountConfig] =
     Inl (Errorf ''could not apply config'' (OtherError ''params handler already set''))"
proof -
  have m: "paramsHandlers (HandleMount exMount defaultHandler) = []"
    by (simp add: HandleMount_def defaultHandler_def)
  have p: "paramsHandlers (HandleParams exParams (HandleMount exMount defaultHandler)) \<noteq> []"
    by (simp add: HandleParams_def)
  have pm: "HandleMount exMount (HandleParams exParams (HandleMount exMount defaultHandler)) =
      HandleParams exParams (HandleMount exMount defaultHandler)"
    by (simp add: HandleMount_def HandleParams_def)
  have once: "exOnceConfig (HandleMount exMount defaultHandler) =
      (None, HandleParams exParams (HandleMount exMount defaultHandler))"
    using m by (simp add: exOnceConfig_def)
  have twice: "exOnceConfig (HandleParams exParams (HandleMount exMount defaultHandler)) =
      (Some (OtherError ''params handler already set''),
       HandleParams exParams (HandleMount exMount defaultHandler))"
    using p by (simp add: exOnceConfig_def)
  have pre: "fst (NewHandler [exMountConfig, exOnceConfig]) =
      HandleParams exParams (HandleMount exMount defaultHandler)"
    by (simp add: NewHandler_def exMountConfig_def once)
  have long: "\<forall>k<length [exMountConfig, exOnceConfig].
      fst (([exMountConfig, exOnceConfig] ! k)
        (foldl (\<lambda>b conf. snd (conf b)) defaultHandler (take k [exMountConfig, exOnceConfig])))
      = None"
    by (simp add: All_less_Suc2 exMountConfig_def once)
  have short: "\<forall>k<2.
      fst (([exMountConfig, exOnceConfig, exOnceConfig, exMountConfig] ! k)
        (foldl (\<lambda>b conf. snd (conf b)) defaultHandler
          (take k [exMountConfig, exOnceConfig, exOnceConfig, exMountConfig])))
      = None"
    by (simp add: numeral_2_eq_2 All_less_Suc2 exMountConfig_def once)
  have bad: "fst (([exMountConfig, exOnceConfig, exOnceConfig, exMountConfig] ! 2)
        (foldl (\<lambda>b conf. snd (conf b)) defaultHandler
          (take 2 [exMountConfig, exOnceConfig, exOnceConfig, exMountConfig])))
      = Some (OtherError ''params handler already set'')"
    by (simp add: numeral_2_eq_2 exMountConfig_def once twice)
  show ?thesis
    using construction_options [where configs = "[exMountConfig, exOnceConfig]"
        and conf = exOnceConfig and pre = "[exMountConfig, exOnceConfig]"
        and post = "[exMountConfig]" and e = "OtherError ''params handler already set''"
        and b = "HandleParams exParams (HandleMount exMount defaultHandler)"
        and newBase = exNewBase and d = defaultHandler and store = exStore
        and ?e0.0 = "OtherError ''no base handler''" and j = 0]
      construction_options [where configs = "[exMountConfig, exOnceConfig]"
        and conf = exOnceConfig and pre = "[exMountConfig, exOnceConfig]"
        and post = "[exMountConfig]" and e = "OtherError ''params handler already set''"
        and b = "HandleParams exParams (HandleMount exMount defaultHandler)"
        and newBase = exFailingNewBase and d = defaultHandler and store = exStore
        and ?e0.0 = "OtherError ''no base handler''" and j = 0]
      construction_options
        [where configs = "[exMountConfig, exOnceConfig, exOnceConfig, exMountConfig]"
        and conf = exOnceConfig and pre = "[exMountConfig, exOnceConfig]"
        and post = "[exMountConfig]" and e = "OtherError ''params handler already set''"
        and b = "HandleParams exParams (HandleMount exMount defaultHandler)"
        and newBase = exNewBase and d = defaultHandler and store = exStore
        and ?e0.0 = "OtherError ''no base handler''" and j = 2]
      pre twice long short bad
    by (simp add: exNewBase_def exFailingNewBase_def exMountConfig_def once twice pm
        del: length_Cons nth_Cons_numeral take_Cons_numeral)
qed

text \<open>
  C5, on the code: the first write of \<open>serveWS\<close>, the connect event under a timeout of
  five seconds, fails, and the connection logic runs all the same: the writing loop is
  entered and writes the next message before the context is cancelled.
\<close>

theorem serveWS_first_write_ignored:
  "snd (serveWS exEnv exHandler 1 exRequest None (Some (OtherError ''write: broken pipe''))
          [RecvMsg exEvent None, CtxDone]) =
     [WsWrite 5 \<lparr>evT = EventConnect, evID = 0, evData = None\<rparr>
        (Some (OtherError ''write: broken pipe'')),
      WsWrite 5 exEvent None,
      LogPrintln (LogWsClosed (- 1) None),
      WsClose 1011 '''']"
  by (simp add: serveWS_def underscore_serveWS_def serveWSBody_def exHandler_def
      exStore_def exEnv_def exRenderSocket_def exRender_def HandleEvent_def
      HandleRender_def defaultHandler_def getMount_def getParams_def getRender_def
      AddSocket_def DeleteSocket_def
      StatusNormalClosure_def StatusGoingAway_def StatusInternalError_def Let_def)

text \<open>
  C6. When no handler is registered for an event type, \<open>getEvent\<close> returns an error
  that is \<open>ErrNoEventHandler\<close>. When the dispatch of an inbound message returns such an
  error, the message is handled as follows: the error is logged, nothing is sent on the
  event error channel, the render and the acknowledgement follow as for any message
  (so that, when both succeed, the log line, the patches of the render and the
  acknowledgement are all there is, no internal error is raised and the reading
  goroutine is not held up), and the reading loop goes on with the next frame, as it
  does whenever the handling of the message is not held up at a send.
\<close>

theorem unregistered_event_swallowed:
  "(eventHandlers b t = None \<longrightarrow>
      (\<exists>e. getEvent b t = Inl e \<and> errors_Is e ErrNoEventHandler)) \<and>
   (errors_Is e ErrNoEventHandler \<longrightarrow> dispatch env h s m = (Some e, s1) \<longrightarrow>
      handleText env h s m n =
        (fst (renderAndAck env h s1 m n),
         ReaderLog (LogEventError m e) # fst (snd (renderAndAck env h s1 m n)),
         snd (snd (renderAndAck env h s1 m n))) \<and>
      filter isToEventErrors (fst (snd (handleText env h s m n))) = [] \<and>
      (RenderSocket env h s1 = (Inr render, ps) \<longrightarrow>
       Send env (UpdateRender render s1) EventAck nil [WithID (evID m)] = None \<longrightarrow>
         handleText env h s m n =
           (UpdateRender render s1,
            ReaderLog (LogEventError m e) # map sendPatch ps @
              [SockSend EventAck nil [WithID (evID m)]],
            Some n) \<and>
         reader env h (MessageText (Inr m) # fs) s n =
           (fst (reader env h fs (UpdateRender render s1) n),
            (ReaderLog (LogEventError m e) # map sendPatch ps @
               [SockSend EventAck nil [WithID (evID m)]]) @
              fst (snd (reader env h fs (UpdateRender render s1) n)),
            snd (snd (reader env h fs (UpdateRender render s1) n)))) \<and>
      (snd (snd (handleText env h s m n)) = Some k \<longrightarrow>
         reader env h (MessageText (Inr m) # fs) s n =
           (fst (reader env h fs (fst (handleText env h s m n)) k),
            fst (snd (handleText env h s m n)) @
              fst (snd (reader env h fs (fst (handleText env h s m n)) k)),
            snd (snd (reader env h fs (fst (handleText env h s m n)) k)))))"
proof (intro conjI impI)
  assume "eventHandlers b t = None"
  then show "\<exists>e. getEvent b t = Inl e \<and> errors_Is e ErrNoEventHandler"
    by (simp add: getEvent_def)
next
  assume e: "errors_Is e ErrNoEventHandler" and d: "dispatch env h s m = (Some e, s1)"
  show eq: "handleText env h s m n =
        (fst (renderAndAck env h s1 m n),
         ReaderLog (LogEventError m e) # fst (snd (renderAndAck env h s1 m n)),
         snd (snd (renderAndAck env h s1 m n)))"
    using e d by (simp add: handleText_def dispatchError_def split: prod.splits)
  have "filter isToEventErrors (fst (snd (renderAndAck env h s1 m n))) = []"
    by (simp add: renderAndAck_def sendAck_def sendPatch_def filter_empty_conv
        split: prod.splits sum.splits option.splits nat.splits)
  then show "filter isToEventErrors (fst (snd (handleText env h s m n))) = []"
    by (simp add: eq)
  assume r: "RenderSocket env h s1 = (Inr render, ps)"
    and a: "Send env (UpdateRender render s1) EventAck nil [WithID (evID m)] = None"
  then show step: "handleText env h s m n =
           (UpdateRender render s1,
            ReaderLog (LogEventError m e) # map sendPatch ps @
              [SockSend EventAck nil [WithID (evID m)]],
            Some n)"
    by (simp add: eq renderAndAck_def sendAck_def)
  show "reader env h (MessageText (Inr m) # fs) s n =
           (fst (reader env h fs (UpdateRender render s1) n),
            (ReaderLog (LogEventError m e) # map sendPatch ps @
               [SockSend EventAck nil [WithID (evID m)]]) @
              fst (snd (reader env h fs (UpdateRender render s1) n)),
            snd (snd (reader env h fs (UpdateRender render s1) n)))"
    by (simp add: step split: prod.splits)
next
  assume "snd (snd (handleText env h s m n)) = Some k"
  then show "reader env h (MessageText (Inr m) # fs) s n =
           (fst (reader env h fs (fst (handleText env h s m n)) k),
            fst (snd (handleText env h s m n)) @
              fst (snd (reader env h fs (fst (handleText env h s m n)) k)),
            snd (snd (reader env h fs (fst (handleText env h s m n)) k)))"
    by (cases "handleText env h s m n") (auto split: prod.splits)
qed

theorem unregistered_event_swallowed_witness:
  "eventHandlers (baseHandler exHandler) ''nope'' = None \<and>
   getEvent (baseHandler exHandler) ''nope'' =
     Inl (Errorf ''no event handler for nope'' ErrNoEventHandler) \<and>
   dispatch exEnv exHandler exLiveSock exUnknownEvent =
     (Some (Errorf ''no event handler for nope'' ErrNoEventHandler), exLiveSock) \<and>
   handleText exEnv exHandler exLiveSock exUnknownEvent 0 =
     (exLiveSock,
      [ReaderLog (LogEventError exUnknownEvent
         (Errorf ''no event handler for nope'' ErrNoEventHandler)),
       SockSend EventPatch (Value ''patch'') [],
       SockSend EventAck nil [WithID 8]],
      Some 0)"
proof -
  have g: "eventHandlers (baseHandler exHandler) ''nope'' = None"
    by (simp add: exHandler_def HandleRender_def HandleEvent_def defaultHandler_def)
  have d: "dispatch exEnv exHandler exLiveSock exUnknownEvent =
      (Some (Errorf ''no event handler for nope'' ErrNoEventHandler), exLiveSock)"
    using g by (simp add: dispatch_def exEnv_def exCallEvent_def exUnknownEvent_def
        getEvent_def)
  have r: "RenderSocket exEnv exHandler exLiveSock = (Inr exPage, [Value ''patch''])"
    by (simp add: exEnv_def exRenderSocket_def exHandler_def exRender_def exLiveSock_def
        getRender_def HandleRender_def UpdateRender_def)
  have u: "UpdateRender exPage exLiveSock = exLiveSock"
    by (simp add: exLiveSock_def UpdateRender_def)
  have s: "Send exEnv = (\<lambda>s t d cs. None)"
    by (simp add: exEnv_def)
  have i: "evID exUnknownEvent = 8"
    by (simp add: exUnknownEvent_def)
  have a: "Send exEnv (UpdateRender exPage exLiveSock) EventAck nil
      [WithID (evID exUnknownEvent)] = None"
    by (simp add: s)
  have n: "errors_Is (Errorf ''no event handler for nope'' ErrNoEventHandler)
      ErrNoEventHandler"
    by simp
  have "handleText exEnv exHandler exLiveSock exUnknownEvent 0 =
      (UpdateRender exPage exLiveSock,
       ReaderLog (LogEventError exUnknownEvent
         (Errorf ''no event handler for nope'' ErrNoEventHandler)) #
         map sendPatch [Value ''patch''] @
         [SockSend EventAck nil [WithID (evID exUnknownEvent)]],
       Some 0)"
    using unregistered_event_swallowed [where b = "baseHandler exHandler" and t = "''nope''"
        and e = "Errorf ''no event handler for nope'' ErrNoEventHandler"
        and env = exEnv and h = exHandler and s = exLiveSock and m = exUnknownEvent
        and ?s1.0 = exLiveSock and render = exPage and ps = "[Value ''patch'']"
        and fs = "[]" and n = 0 and k = 0]
      n d r a
    by blast
  with g d show ?thesis
    by (simp add: getEvent_def u i sendPatch_def)
qed

text \<open>
  C7, on the code: the context is cancelled while the writing loop waits. \<open>_serveWS\<close>
  returns a nil error; in \<open>serveWS\<close> a nil error is not \<open>context.Canceled\<close> and has close
  status \<open>-1\<close>, so the default branch logs the closing of the connection.
\<close>

theorem serveWS_cancellation_logged:
  "fst (underscore_serveWS exEnv exHandler 1 exRequest ''s1'' [CtxDone]) = Some None \<and>
   snd (serveWS exEnv exHandler 1 exRequest None None [CtxDone]) =
     [WsWrite 5 \<lparr>evT = EventConnect, evID = 0, evData = None\<rparr> None,
      LogPrintln (LogWsClosed (- 1) None),
      WsClose 1011 '''']"
  by (simp add: serveWS_def underscore_serveWS_def serveWSBody_def exHandler_def
      exStore_def exEnv_def exRenderSocket_def exRender_def HandleEvent_def
      HandleRender_def defaultHandler_def getMount_def getParams_def getRender_def
      AddSocket_def DeleteSocket_def
      StatusNormalClosure_def StatusGoingAway_def StatusInternalError_def Let_def)

text \<open>
  C8. \<open>Diff\<close> applied to an absent previous tree and a current tree \<open>T\<close> yields the full
  tree, equal to the serialisation of \<open>T\<close>, whatever the walk of two trees is: the diff
  step is not taken. The stateless path is such a first paint: when the session, the
  mount, the param handlers, the render (of a tree \<open>T\<close>) and the saving of the session
  all succeed, the socket has no previous snapshot when it is rendered, \<open>Diff\<close> of its
  snapshot and \<open>T\<close> is the serialisation of \<open>T\<close>, and that serialisation is the body
  of the response, with status 200; \<open>T\<close> becomes the stored snapshot.
\<close>

theorem first_paint_full_tree:
  "Diff walk serialize None T = FullTree (serialize T) \<and>
   (storeGet (sessionStore h) r = (session, None) \<longrightarrow>
    getMount (baseHandler h) (NewHTTPSocket session i False) = (d, None) \<longrightarrow>
    runParams (getParams (baseHandler h)) (NewParamsFromRequest env r)
      (Assign d (NewHTTPSocket session i False)) = (None, sock1) \<longrightarrow>
    RenderSocket env h sock1 = (Inr T, ps) \<longrightarrow>
    storeSave (sessionStore h) r session = None \<longrightarrow>
      currentRender sock1 = None \<and>
      Diff walk (html_Render env) (currentRender sock1) T = FullTree (html_Render env T) \<and>
      serveHTTP env h i r =
        (h, Some (UpdateRender T sock1),
         [StoreSave session, Respond (WriteHeader 200),
          Respond (Write (Rendered (html_Render env T)))]))"
proof (intro conjI impI)
  show "Diff walk serialize None T = FullTree (serialize T)"
    by (simp add: Diff_def)
next
  assume g: "storeGet (sessionStore h) r = (session, None)"
    and m: "getMount (baseHandler h) (NewHTTPSocket session i False) = (d, None)"
    and p: "runParams (getParams (baseHandler h)) (NewParamsFromRequest env r)
      (Assign d (NewHTTPSocket session i False)) = (None, sock1)"
    and r: "RenderSocket env h sock1 = (Inr T, ps)"
    and s: "storeSave (sessionStore h) r session = None"
  from p have "currentRender sock1 =
      currentRender (Assign d (NewHTTPSocket session i False))"
    by (rule runParams_currentRender)
  then show fresh: "currentRender sock1 = None"
    by (simp add: Assign_def NewHTTPSocket_def NewBaseSocket_def)
  then show "Diff walk (html_Render env) (currentRender sock1) T =
      FullTree (html_Render env T)"
    by (simp add: Diff_def)
  from g m p r s show "serveHTTP env h i r =
        (h, Some (UpdateRender T sock1),
         [StoreSave session, Respond (WriteHeader 200),
          Respond (Write (Rendered (html_Render env T)))])"
    by (simp add: serveHTTP_def Let_def)
qed

theorem first_paint_full_tree_witness:
  "storeGet (sessionStore exHandler) exRequest = (''s1'', None) \<and>
   RenderSocket exEnv exHandler (NewHTTPSocket ''s1'' 0 False) = (Inr exPage, []) \<and>
   currentRender (NewHTTPSocket ''s1'' 0 False) = None \<and>
   serveHTTP exEnv exHandler 0 exRequest =
     (exHandler, Some (UpdateRender exPage (NewHTTPSocket ''s1'' 0 False)),
      [StoreSave ''s1'', Respond (WriteHeader 200),
       Respond (Write (Rendered ''<div>hello</div>''))])"
proof -
  have g: "storeGet (sessionStore exHandler) exRequest = (''s1'', None)"
    by (simp add: exHandler_def exStore_def)
  have m: "getMount (baseHandler exHandler) (NewHTTPSocket ''s1'' 0 False) = (nil, None)"
    by (simp add: exHandler_def getMount_def HandleRender_def HandleEvent_def
        defaultHandler_def)
  have p: "runParams (getParams (baseHandler exHandler)) (NewParamsFromRequest exEnv exRequest)
      (Assign nil (NewHTTPSocket ''s1'' 0 False)) = (None, NewHTTPSocket ''s1'' 0 False)"
    by (simp add: exHandler_def getParams_def HandleRender_def HandleEvent_def
        defaultHandler_def Assign_def NewHTTPSocket_def NewBaseSocket_def)
  have r: "RenderSocket exEnv exHandler (NewHTTPSocket ''s1'' 0 False) = (Inr exPage, [])"
    by (simp add: exEnv_def exRenderSocket_def exHandler_def exRender_def getRender_def
        HandleRender_def NewHTTPSocket_def NewBaseSocket_def)
  have s: "storeSave (sessionStore exHandler) exRequest ''s1'' = None"
    by (simp add: exHandler_def exStore_def)
  have w: "html_Render exEnv exPage = ''<div>hello</div>''"
    by (simp add: exEnv_def)
  from g r show ?thesis
    using first_paint_full_tree [where h = exHandler and r = exRequest
        and session = "''s1''" and i = 0 and d = nil and env = exEnv
        and ?sock1.0 = "NewHTTPSocket ''s1'' 0 False" and T = exPage and ps = "[]"]
      m p s
    by (simp add: w)
qed

text \<open>
  C9. The stateless path leaves the handler as it found it, on every branch: the
  live-socket set after \<open>serveHTTP\<close> is the set before it, so the request's socket is
  not registered and no registered socket is removed.
\<close>

theorem serveHTTP_frame:
  "fst (serveHTTP env h i r) = h \<and> sockets (fst (serveHTTP env h i r)) = sockets h"
  by (simp add: serveHTTP_def Let_def split: prod.splits option.splits sum.splits)

text \<open>
  C10. A handler built by \<open>NewHandler\<close> with no options has the default handlers: its
  mount handler returns nil state and a nil error for every socket, and its render
  handler returns no reader and the error \<open>ErrNoRenderer\<close> for every render context;
  building it logs nothing.
\<close>

theorem NewHandler_defaults:
  "getMount (fst (NewHandler [])) s = (nil, None) \<and>
   getRender (fst (NewHandler [])) rc = (None, Some ErrNoRenderer) \<and>
   snd (NewHandler []) = []"
  by (simp add: NewHandler_def defaultHandler_def getMount_def getRender_def)

end
